theory Spec2Isabelle
  imports
    Complex_Main
    "HOL-Library.Word"
    "HOL-Library.Sublist"
    "HOL-Library.List_Lexorder"
    "HOL-Library.Char_ord"
    "HOL-Library.Multiset"
begin

section \<open>Strings and numbers of the host language\<close>

text \<open>
  The strings of the server and of the dental chart are \<open>char list\<close>s: one \<open>char\<close> is one
  code unit below 256 of the JavaScript string. (The patient list, whose claims are about
  arbitrary names and queries, has strings of 16-bit code units, see there.) \<open>show_nat\<close>
  is the conversion of a non-negative integer below \<open>10^21\<close> to a string, its decimal
  numeral; it is applied to array and string lengths and to HTTP status codes only.
\<close>

definition digit_char :: "nat \<Rightarrow> char" where
  "digit_char d = ''0123456789'' ! d"

fun show_nat :: "nat \<Rightarrow> string" where
  "show_nat n = (if n < 10 then [digit_char n] else show_nat (n div 10) @ [digit_char (n mod 10)])"

declare show_nat.simps [simp del]

text \<open>\<open>s.includes(q)\<close>: \<open>q\<close> occurs in \<open>s\<close> as a contiguous run of code units.\<close>

fun starts_with :: "'a list \<Rightarrow> 'a list \<Rightarrow> bool" where
  "starts_with s [] = True"
| "starts_with [] (c # q) = False"
| "starts_with (a # s) (c # q) = (a = c \<and> starts_with s q)"

fun includes_str :: "'a list \<Rightarrow> 'a list \<Rightarrow> bool" where
  "includes_str [] q = (q = [])"
| "includes_str (a # s) q = (starts_with (a # s) q \<or> includes_str s q)"

text \<open>
  \<open>s.toLowerCase()\<close> on a string of code units below 256. There the function works unit by
  unit: the letters A to Z (\<open>0x41\<close> to \<open>0x5A\<close>) and the upper-case letters \<open>0xC0\<close> to \<open>0xDE\<close>
  other than the multiplication sign \<open>0xD7\<close> move up by \<open>0x20\<close>, every other unit stays.
\<close>

definition lower_char :: "char \<Rightarrow> char" where
  "lower_char c =
     (if (CHR ''A'' \<le> c \<and> c \<le> CHR ''Z'')
         \<or> (CHR 0xC0 \<le> c \<and> c \<le> CHR 0xDE \<and> c \<noteq> CHR 0xD7)
      then char_of (of_char c + (32::nat))
      else c)"

definition toLowerCase :: "string \<Rightarrow> string" where
  "toLowerCase s = map lower_char s"

section \<open>The server: \<open>src/index.ts\<close>\<close>

subsection \<open>Parsed JSON bodies\<close>

text \<open>
  The value \<open>res.json()\<close> resolves to. A number is carried as the text that
  \<open>Number.prototype.toString\<close> gives for it (\<open>40\<close>, \<open>-3\<close>, \<open>12.5\<close>, \<open>1e+21\<close>): the text
  determines the number up to the sign of zero, and the handlers use a number in two ways
  only, in a template literal, which prints that text, and in a truthiness test, which asks
  whether the number is zero, the number whose text is \<open>0\<close>. An object keeps its members
  in source order; where a key repeats, the parser keeps the last one.
\<close>

datatype json =
    JNull
  | JBool bool
  | JNum string
  | JStr string
  | JArr "json list"
  | JObj "(string \<times> json) list"

text \<open>
  \<open>v.k\<close> for a value \<open>v\<close> that is neither \<open>null\<close> nor \<open>undefined\<close>; \<open>None\<close> is
  \<open>undefined\<close>. The handlers read the names \<open>data\<close>, \<open>patients\<close>, \<open>total_count\<close>,
  \<open>patient_chart\<close>, \<open>patient_report\<close>, \<open>summary\<close>, the four summary counters and \<open>length\<close>;
  of these only \<open>length\<close> exists on arrays and strings, and none on a number or a boolean.
\<close>

fun get_prop :: "json \<Rightarrow> string \<Rightarrow> json option" where
  "get_prop (JObj kvs) k = map_of (rev kvs) k"
| "get_prop (JArr xs) k = (if k = ''length'' then Some (JNum (show_nat (length xs))) else None)"
| "get_prop (JStr s) k = (if k = ''length'' then Some (JNum (show_nat (length s))) else None)"
| "get_prop v k = None"

text \<open>Reading a property of \<open>null\<close> throws a \<open>TypeError\<close> with this message (V8's wording).\<close>

definition null_read_message :: "string \<Rightarrow> string" where
  "null_read_message k = ''Cannot read properties of null (reading '' @ [CHR 0x27] @ k @ [CHR 0x27] @ '')''"

text \<open>\<open>a ?? b\<close>: \<open>b\<close> when \<open>a\<close> is \<open>undefined\<close> or \<open>null\<close>.\<close>

definition nullish :: "json option \<Rightarrow> bool" where
  "nullish a = (a = None \<or> a = Some JNull)"

fun truthy :: "json \<Rightarrow> bool" where
  "truthy JNull = False"
| "truthy (JBool b) = b"
| "truthy (JNum n) = (n \<noteq> ''0'')"
| "truthy (JStr s) = (s \<noteq> [])"
| "truthy (JArr xs) = True"
| "truthy (JObj kvs) = True"

text \<open>
  The conversion to string inside a template literal. An array joins its elements with
  commas, \<open>null\<close> elements giving the empty string. An object without a member called
  \<open>toString\<close> inherits the method that yields \<open>[object Object]\<close>; with such a member (never
  callable in parsed JSON) the conversion throws a \<open>TypeError\<close>, here \<open>None\<close>.
\<close>

fun join_comma :: "string list \<Rightarrow> string" where
  "join_comma [] = []"
| "join_comma [s] = s"
| "join_comma (s # t # ss) = s @ CHR '','' # join_comma (t # ss)"

fun those_strings :: "string option list \<Rightarrow> string list option" where
  "those_strings [] = Some []"
| "those_strings (None # xs) = None"
| "those_strings (Some s # xs) = (case those_strings xs of None \<Rightarrow> None | Some ss \<Rightarrow> Some (s # ss))"

fun js_string :: "json \<Rightarrow> string option" where
  "js_string JNull = Some ''null''"
| "js_string (JBool b) = Some (if b then ''true'' else ''false'')"
| "js_string (JNum n) = Some n"
| "js_string (JStr s) = Some s"
| "js_string (JArr xs) =
     map_option join_comma
       (those_strings (map (\<lambda>x. if x = JNull then Some [] else js_string x) xs))"
| "js_string (JObj kvs) =
     (if map_of (rev kvs) ''toString'' = None then Some ''[object Object]'' else None)"

definition to_primitive_message :: string where
  "to_primitive_message = ''Cannot convert object to primitive value''"

text \<open>\<open>${v}\<close> for a possibly \<open>undefined\<close> value: the text, or \<open>Inl\<close> the thrown message.\<close>

definition interpolate :: "json option \<Rightarrow> string + string" where
  "interpolate v =
     (case v of
        None \<Rightarrow> Inr ''undefined''
      | Some j \<Rightarrow> (case js_string j of None \<Rightarrow> Inl to_primitive_message | Some s \<Rightarrow> Inr s))"

subsection \<open>The backend caller\<close>

datatype http_method = GET | POST

record request =
  path :: string
  http_method :: http_method
  params :: "(string \<times> string) list"
  timeoutMs :: nat

text \<open>
  What \<open>fetch\<close> does with a request: it rejects (network failure, or the abort fired by the
  timeout) with a message, or it resolves to a response. \<open>body\<close> is what \<open>res.json()\<close>
  gives: the parsed value, or \<open>Inl\<close> the message of the syntax error.
\<close>

record response =
  status :: nat
  statusText :: string
  body :: "string + json"

datatype fetch_outcome = Rejected string | Resolved response

definition ok :: "response \<Rightarrow> bool" where
  "ok res = (200 \<le> status res \<and> status res \<le> 299)"

datatype tool = GetPatients | GetPatientChart | GetReports

definition TOOL_TIMEOUTS :: "tool \<Rightarrow> nat" where
  "TOOL_TIMEOUTS t =
     (case t of
        GetPatients \<Rightarrow> 30 * 60000
      | GetPatientChart \<Rightarrow> 30 * 60000
      | GetReports \<Rightarrow> 30 * 60000)"

definition default_timeoutMs :: nat where
  "default_timeoutMs = 5 * 60000"

text \<open>The request \<open>callBackend\<close> issues: the method defaults to POST, the timeout to five
  minutes, and the parameters, when given, become the query string.\<close>

definition backend_request ::
  "string \<Rightarrow> http_method option \<Rightarrow> (string \<times> string) list option \<Rightarrow> nat option \<Rightarrow> request" where
  "backend_request p m ps t =
     \<lparr> path = p,
       http_method = (case m of None \<Rightarrow> POST | Some m' \<Rightarrow> m'),
       params = (case ps of None \<Rightarrow> [] | Some kvs \<Rightarrow> kvs),
       timeoutMs = (case t of None \<Rightarrow> default_timeoutMs | Some ms \<Rightarrow> ms) \<rparr>"

text \<open>\<open>callBackend\<close>: \<open>Inl\<close> is the message of the exception it throws, \<open>Inr\<close> the parsed body.
  The network, with the configured base address of the backend, is the function \<open>net\<close>.\<close>

definition callBackend ::
  "(request \<Rightarrow> fetch_outcome) \<Rightarrow> string \<Rightarrow> http_method option \<Rightarrow>
     (string \<times> string) list option \<Rightarrow> nat option \<Rightarrow> string + json" where
  "callBackend net p m ps t =
     (case net (backend_request p m ps t) of
        Rejected msg \<Rightarrow> Inl msg
      | Resolved res \<Rightarrow>
          if \<not> ok res
          then Inl (''Backend returned '' @ show_nat (status res) @ '': '' @ statusText res)
          else body res)"

subsection \<open>The three tools\<close>

text \<open>A handler returns \<open>error(message)\<close> or \<open>widget({props, output: text(summary)})\<close>. A
  member of \<open>props\<close> may be \<open>undefined\<close> (\<open>None\<close>).\<close>

datatype tool_result =
    ToolError string
  | Widget "(string \<times> json option) list" string

text \<open>\<open>json.data ?? json\<close>, which throws when the body is \<open>null\<close>.\<close>

definition unwrap :: "json \<Rightarrow> string + json" where
  "unwrap j =
     (if j = JNull then Inl (null_read_message ''data'')
      else (case get_prop j ''data'' of
              None \<Rightarrow> Inr j
            | Some d \<Rightarrow> if d = JNull then Inr j else Inr d))"

text \<open>\<open>obj.summary?.k ?? 0\<close> for an \<open>obj\<close> that is not \<open>null\<close>.\<close>

definition summary_field :: "json \<Rightarrow> string \<Rightarrow> json" where
  "summary_field obj k =
     (let s = get_prop obj ''summary'';
          v = (if nullish s then None else get_prop (the s) k)
      in if nullish v then JNum ''0'' else the v)"

definition get_patients_body :: "json \<Rightarrow> string + tool_result" where
  "get_patients_body j =
     (case unwrap j of
        Inl msg \<Rightarrow> Inl msg
      | Inr data \<Rightarrow>
          let patients = (if nullish (get_prop data ''patients'') then JArr []
                          else the (get_prop data ''patients''));
              totalCount = (if nullish (get_prop data ''total_count'') then get_prop patients ''length''
                            else get_prop data ''total_count'')
          in (case interpolate totalCount of
                Inl msg \<Rightarrow> Inl msg
              | Inr n \<Rightarrow>
                  Inr (Widget [(''patients'', Some patients), (''totalCount'', totalCount)]
                         (''Found '' @ n @
                          '' patient(s). Use the table to browse or click a patient for details.''))))"

definition get_patients :: "(request \<Rightarrow> fetch_outcome) \<Rightarrow> tool_result" where
  "get_patients net =
     (case callBackend net ''/api/patients'' (Some POST) None (Some (TOOL_TIMEOUTS GetPatients)) of
        Inl msg \<Rightarrow> ToolError (''Failed to fetch patients: '' @ msg)
      | Inr j \<Rightarrow>
          (case get_patients_body j of
             Inl msg \<Rightarrow> ToolError (''Failed to fetch patients: '' @ msg)
           | Inr r \<Rightarrow> r))"

definition get_patient_chart_body :: "string \<Rightarrow> json \<Rightarrow> string + tool_result" where
  "get_patient_chart_body patient_name j =
     (case unwrap j of
        Inl msg \<Rightarrow> Inl msg
      | Inr data \<Rightarrow>
          (case get_prop data ''patient_chart'' of
             None \<Rightarrow> Inr (ToolError ''No chart data returned for this patient.'')
           | Some chart \<Rightarrow>
               if \<not> truthy chart then Inr (ToolError ''No chart data returned for this patient.'')
               else
                 (case interpolate (Some (summary_field chart ''total_teeth_with_work'')) of
                    Inl msg \<Rightarrow> Inl msg
                  | Inr w \<Rightarrow>
                      (case interpolate (Some (summary_field chart ''missing_teeth_count'')) of
                         Inl msg \<Rightarrow> Inl msg
                       | Inr m \<Rightarrow>
                           Inr (Widget [(''chart'', Some chart),
                                        (''patientName'', Some (JStr patient_name))]
                                  (''Dental chart for '' @ patient_name @ '': '' @ w @
                                   '' teeth with work, '' @ m @ '' missing.''))))))"

definition get_patient_chart :: "(request \<Rightarrow> fetch_outcome) \<Rightarrow> string \<Rightarrow> tool_result" where
  "get_patient_chart net patient_name =
     (case callBackend net ''/api/patient_chart'' (Some POST)
             (Some [(''patient_name'', patient_name)]) (Some (TOOL_TIMEOUTS GetPatientChart)) of
        Inl msg \<Rightarrow> ToolError (''Failed to fetch chart: '' @ msg)
      | Inr j \<Rightarrow>
          (case get_patient_chart_body patient_name j of
             Inl msg \<Rightarrow> ToolError (''Failed to fetch chart: '' @ msg)
           | Inr r \<Rightarrow> r))"

definition get_reports_body :: "string \<Rightarrow> json \<Rightarrow> string + tool_result" where
  "get_reports_body patient_name j =
     (case unwrap j of
        Inl msg \<Rightarrow> Inl msg
      | Inr data \<Rightarrow>
          (case get_prop data ''patient_report'' of
             None \<Rightarrow> Inr (ToolError ''No report data returned for this patient.'')
           | Some report \<Rightarrow>
               if \<not> truthy report then Inr (ToolError ''No report data returned for this patient.'')
               else
                 (case interpolate (Some (summary_field report ''total_outstanding_balance'')) of
                    Inl msg \<Rightarrow> Inl msg
                  | Inr b \<Rightarrow>
                      (case interpolate (Some (summary_field report ''pending_insurance_claims'')) of
                         Inl msg \<Rightarrow> Inl msg
                       | Inr c \<Rightarrow>
                           Inr (Widget [(''report'', Some report),
                                        (''patientName'', Some (JStr patient_name))]
                                  (''Report for '' @ patient_name @ '': balance $'' @ b @
                                   '', '' @ c @ '' pending claims.''))))))"

definition get_reports :: "(request \<Rightarrow> fetch_outcome) \<Rightarrow> string \<Rightarrow> tool_result" where
  "get_reports net patient_name =
     (case callBackend net ''/api/reports'' (Some POST)
             (Some [(''patient_name'', patient_name)]) (Some (TOOL_TIMEOUTS GetReports)) of
        Inl msg \<Rightarrow> ToolError (''Failed to fetch report: '' @ msg)
      | Inr j \<Rightarrow>
          (case get_reports_body patient_name j of
             Inl msg \<Rightarrow> ToolError (''Failed to fetch report: '' @ msg)
           | Inr r \<Rightarrow> r))"

text \<open>The registry: the tool invoked by name, and the one request its handler sends.
  \<open>get-patients\<close> takes no argument.\<close>

definition run_tool :: "(request \<Rightarrow> fetch_outcome) \<Rightarrow> tool \<Rightarrow> string \<Rightarrow> tool_result" where
  "run_tool net t patient_name =
     (case t of
        GetPatients \<Rightarrow> get_patients net
      | GetPatientChart \<Rightarrow> get_patient_chart net patient_name
      | GetReports \<Rightarrow> get_reports net patient_name)"

definition tool_request :: "tool \<Rightarrow> string \<Rightarrow> request" where
  "tool_request t patient_name =
     (case t of
        GetPatients \<Rightarrow>
          backend_request ''/api/patients'' (Some POST) None (Some (TOOL_TIMEOUTS GetPatients))
      | GetPatientChart \<Rightarrow>
          backend_request ''/api/patient_chart'' (Some POST)
            (Some [(''patient_name'', patient_name)]) (Some (TOOL_TIMEOUTS GetPatientChart))
      | GetReports \<Rightarrow>
          backend_request ''/api/reports'' (Some POST)
            (Some [(''patient_name'', patient_name)]) (Some (TOOL_TIMEOUTS GetReports)))"

text \<open>A backend that answers every request the same way.\<close>

definition always :: "fetch_outcome \<Rightarrow> request \<Rightarrow> fetch_outcome" where
  "always out req = out"

section \<open>Sorting as the host language specifies it\<close>

text \<open>
  \<open>Array.prototype.sort(cmp)\<close> is a stable sort: for a comparator that orders the elements
  consistently its result is the one stably sorted arrangement of the array, whichever
  algorithm the engine runs. The model computes that arrangement by insertion from the
  right: an element goes in front of the first element it does not compare greater than.
\<close>

fun insert_by :: "('a \<Rightarrow> 'a \<Rightarrow> int) \<Rightarrow> 'a \<Rightarrow> 'a list \<Rightarrow> 'a list" where
  "insert_by cmp x [] = [x]"
| "insert_by cmp x (y # ys) = (if cmp x y \<le> 0 then x # y # ys else y # insert_by cmp x ys)"

definition js_sort :: "('a \<Rightarrow> 'a \<Rightarrow> int) \<Rightarrow> 'a list \<Rightarrow> 'a list" where
  "js_sort cmp xs = foldr (insert_by cmp) xs []"

text \<open>\<open>xs.slice(start, end)\<close>: a negative index counts from the end of the array.\<close>

definition js_slice :: "'a list \<Rightarrow> int \<Rightarrow> int \<Rightarrow> 'a list" where
  "js_slice xs s e =
     (let len = int (length xs);
          k = (if s < 0 then max (len + s) 0 else min s len);
          f = (if e < 0 then max (len + e) 0 else min e len)
      in take (nat (f - k)) (drop (nat k) xs))"

text \<open>\<open>Math.ceil(n / k)\<close> for an array length \<open>n\<close> and a positive page size \<open>k\<close>.\<close>

definition ceil_div :: "nat \<Rightarrow> nat \<Rightarrow> int" where
  "ceil_div n k = int ((n + k - 1) div k)"

section \<open>The patient list widget: \<open>src/resources/patient-list.tsx\<close>\<close>

text \<open>
  The strings of this widget are names, cities, phone numbers and a search query, all
  arbitrary text: a string is the sequence of its UTF-16 code units, and \<open><\<close> on strings is
  the order the host language has, lexicographic on the code units.

  \<open>String.prototype.toLowerCase\<close> belongs to the host language and follows the Unicode case
  tables; the widget takes it as it is. The definitions below take that function as the
  parameter \<open>lc\<close>, and whatever is proved of them holds for every function \<open>lc\<close>, the host's
  among them.
\<close>

type_synonym code_unit = "16 word"

type_synonym jsstring = "code_unit list"

text \<open>
  A patient as \<open>patientSchema\<close> declares it. A member that is \<open>null\<close> and a member that is
  absent are both \<open>None\<close>: the widget reads them through \<open>??\<close> and \<open>||\<close> only, which treat
  the two alike. An age is a number; the rationals contain every finite one. The member
  \<open>status\<close> is the field \<open>patient_status\<close>, apart from the HTTP status of a response.
\<close>

record patient =
  patient_id :: "int option"
  first_name :: jsstring
  last_name :: jsstring
  age :: "rat option"
  wireless_phone :: "jsstring option"
  home_phone :: "jsstring option"
  work_phone :: "jsstring option"
  address :: "jsstring option"
  city :: "jsstring option"
  patient_status :: "jsstring option"

datatype SortKey = K_last_name | K_first_name | K_age | K_city | K_status

datatype SortDir = Asc | Desc

definition PAGE_SIZE :: nat where
  "PAGE_SIZE = 10"

text \<open>\<open>a || b\<close> on optional strings: \<open>a\<close> unless it is absent, \<open>null\<close> or empty.\<close>

definition or_str :: "jsstring option \<Rightarrow> jsstring \<Rightarrow> jsstring" where
  "or_str a b = (case a of None \<Rightarrow> b | Some s \<Rightarrow> if s = [] then b else s)"

text \<open>\<open>a ?? ""\<close> on an optional string.\<close>

definition str_or_empty :: "jsstring option \<Rightarrow> jsstring" where
  "str_or_empty a = (case a of None \<Rightarrow> [] | Some s \<Rightarrow> s)"

text \<open>The predicate of the \<open>filtered\<close> memo, for the lower-cased query \<open>q\<close>; \<open>0x20\<close> is the
  space of the template literal.\<close>

definition matches :: "(jsstring \<Rightarrow> jsstring) \<Rightarrow> jsstring \<Rightarrow> patient \<Rightarrow> bool" where
  "matches lc q p =
     (let phone = or_str (wireless_phone p) (or_str (home_phone p) (or_str (work_phone p) []))
      in q = []
         \<or> includes_str (lc (first_name p @ [0x20] @ last_name p)) q
         \<or> includes_str (lc (str_or_empty (city p))) q
         \<or> includes_str (lc phone) q)"

text \<open>\<open>filtered\<close>: \<open>None\<close> stands for props without a patient list (\<open>!props?.patients\<close>).\<close>

definition filtered ::
  "(jsstring \<Rightarrow> jsstring) \<Rightarrow> patient list option \<Rightarrow> jsstring \<Rightarrow> patient list" where
  "filtered lc patients search =
     (case patients of
        None \<Rightarrow> []
      | Some ps \<Rightarrow> filter (matches lc (lc search)) ps)"

text \<open>\<open>(a[sortKey] ?? "").toString().toLowerCase()\<close> for the four string keys; the key \<open>age\<close>
  never reaches this branch of the comparator.\<close>

definition string_key :: "(jsstring \<Rightarrow> jsstring) \<Rightarrow> SortKey \<Rightarrow> patient \<Rightarrow> jsstring" where
  "string_key lc k p =
     lc
       (case k of
          K_last_name \<Rightarrow> last_name p
        | K_first_name \<Rightarrow> first_name p
        | K_city \<Rightarrow> str_or_empty (city p)
        | K_status \<Rightarrow> str_or_empty (patient_status p)
        | K_age \<Rightarrow> [])"

text \<open>\<open>a.age ?? 0\<close>.\<close>

definition age_key :: "patient \<Rightarrow> rat" where
  "age_key p = (case age p of None \<Rightarrow> 0 | Some n \<Rightarrow> n)"

text \<open>The three-way result of the comparator for two values of one type; \<open><\<close> on strings
  is the lexicographic order of their code units.\<close>

definition compare3 :: "SortDir \<Rightarrow> 'a::linorder \<Rightarrow> 'a \<Rightarrow> int" where
  "compare3 dir av bv =
     (if av < bv then (if dir = Asc then - 1 else 1)
      else if av > bv then (if dir = Asc then 1 else - 1)
      else 0)"

definition compare_patients ::
  "(jsstring \<Rightarrow> jsstring) \<Rightarrow> SortKey \<Rightarrow> SortDir \<Rightarrow> patient \<Rightarrow> patient \<Rightarrow> int" where
  "compare_patients lc k dir a b =
     (if k = K_age then compare3 dir (age_key a) (age_key b)
      else compare3 dir (string_key lc k a) (string_key lc k b))"

text \<open>The \<open>sorted\<close> memo.\<close>

definition sorted_patients ::
  "(jsstring \<Rightarrow> jsstring) \<Rightarrow> patient list \<Rightarrow> SortKey \<Rightarrow> SortDir \<Rightarrow> patient list" where
  "sorted_patients lc rows k dir = js_sort (compare_patients lc k dir) rows"

definition totalPages :: "nat \<Rightarrow> nat \<Rightarrow> int" where
  "totalPages per n = max 1 (ceil_div n per)"

definition safePage :: "nat \<Rightarrow> int \<Rightarrow> nat \<Rightarrow> int" where
  "safePage per page n = min page (totalPages per n)"

definition pageData :: "nat \<Rightarrow> int \<Rightarrow> 'a list \<Rightarrow> 'a list" where
  "pageData per page rows =
     (let sp = safePage per page (length rows)
      in js_slice rows ((sp - 1) * int per) (sp * int per))"

record list_state =
  search :: jsstring
  sortKey :: SortKey
  sortDir :: SortDir
  page :: int

definition initial_list_state :: list_state where
  "initial_list_state = \<lparr> search = [], sortKey = K_last_name, sortDir = Asc, page = 1 \<rparr>"

definition toggleSort :: "SortKey \<Rightarrow> list_state \<Rightarrow> list_state" where
  "toggleSort k st =
     (if sortKey st = k
      then st\<lparr> sortDir := (if sortDir st = Asc then Desc else Asc) \<rparr>
      else st\<lparr> sortKey := k, sortDir := Asc \<rparr>)"

text \<open>The number of rows the table pages over: \<open>sorted.length\<close>.\<close>

definition list_rows ::
  "(jsstring \<Rightarrow> jsstring) \<Rightarrow> patient list option \<Rightarrow> list_state \<Rightarrow> patient list" where
  "list_rows lc patients st =
     sorted_patients lc (filtered lc patients (search st)) (sortKey st) (sortDir st)"

text \<open>
  What the user can do: type in the search box, click a column header, click Prev or Next.
  The pagination bar is rendered only while \<open>totalPages > 1\<close>, Prev is disabled while
  \<open>safePage <= 1\<close> and Next while \<open>safePage >= totalPages\<close>; a disabled or unrendered
  button does nothing. While \<open>isPending\<close> holds the widget renders no control at all.
\<close>

datatype list_event = SearchInput jsstring | HeaderClick SortKey | PrevClick | NextClick

definition on_list_event ::
  "(jsstring \<Rightarrow> jsstring) \<Rightarrow> bool \<Rightarrow> patient list option \<Rightarrow> list_state \<Rightarrow> list_event
     \<Rightarrow> list_state" where
  "on_list_event lc isPending patients st e =
     (let n = length (list_rows lc patients st);
          tp = totalPages PAGE_SIZE n;
          sp = safePage PAGE_SIZE (page st) n
      in if isPending then st
         else (case e of
                 SearchInput v \<Rightarrow> st\<lparr> search := v, page := 1 \<rparr>
               | HeaderClick k \<Rightarrow> toggleSort k st
               | PrevClick \<Rightarrow> if tp > 1 \<and> \<not> sp \<le> 1 then st\<lparr> page := sp - 1 \<rparr> else st
               | NextClick \<Rightarrow> if tp > 1 \<and> \<not> sp \<ge> tp then st\<lparr> page := sp + 1 \<rparr> else st))"

text \<open>A session: events in order, each with the pending flag and the props the widget
  holds when it happens.\<close>

definition list_session ::
  "(jsstring \<Rightarrow> jsstring) \<Rightarrow> (bool \<times> patient list option \<times> list_event) list
     \<Rightarrow> list_state" where
  "list_session lc evs =
     foldl (\<lambda>st (pending, ps, e). on_list_event lc pending ps st e) initial_list_state evs"

section \<open>The account tab of the report widget: \<open>src/resources/patient-report.tsx\<close>\<close>

datatype Tab = overview | family | insurance | account | treatment | appointments

record report_state =
  tab :: Tab
  acctPage :: int

definition initial_report_state :: report_state where
  "initial_report_state = \<lparr> tab = overview, acctPage = 1 \<rparr>"

definition perPage :: nat where
  "perPage = 15"

text \<open>
  The transactions table pages over \<open>account.transactions ?? []\<close>. Its Prev and Next buttons
  exist only while the account tab is shown and \<open>totalPages > 1\<close>; while \<open>isPending\<close> holds
  the widget renders no control at all.
\<close>

definition transactions_of :: "'t list option \<Rightarrow> 't list" where
  "transactions_of txs = (case txs of None \<Rightarrow> [] | Some ts \<Rightarrow> ts)"

datatype report_event = TabClick Tab | AcctPrevClick | AcctNextClick

definition on_report_event ::
  "bool \<Rightarrow> 't list option \<Rightarrow> report_state \<Rightarrow> report_event \<Rightarrow> report_state" where
  "on_report_event isPending txs st e =
     (let n = length (transactions_of txs);
          tp = totalPages perPage n;
          sp = safePage perPage (acctPage st) n
      in if isPending then st
         else (case e of
                 TabClick t \<Rightarrow> st\<lparr> tab := t \<rparr>
               | AcctPrevClick \<Rightarrow>
                   if tab st = account \<and> tp > 1 \<and> \<not> sp \<le> 1
                   then st\<lparr> acctPage := sp - 1 \<rparr> else st
               | AcctNextClick \<Rightarrow>
                   if tab st = account \<and> tp > 1 \<and> \<not> sp \<ge> tp
                   then st\<lparr> acctPage := sp + 1 \<rparr> else st))"

definition report_session ::
  "(bool \<times> 't list option \<times> report_event) list \<Rightarrow> report_state" where
  "report_session evs =
     foldl (\<lambda>st (pending, txs, e). on_report_event pending txs st e) initial_report_state evs"

section \<open>The dental chart widget: \<open>src/resources/patient-chart.tsx\<close>\<close>

text \<open>The colour object of \<open>useColors\<close> for the dark or the light theme, read by key.\<close>

definition useColors :: "bool \<Rightarrow> (string \<times> string) list" where
  "useColors dark =
     [(''bg'', if dark then ''#1a1a2e'' else ''#ffffff''),
      (''card'', if dark then ''#16213e'' else ''#f8f9fa''),
      (''text'', if dark then ''#e0e0e0'' else ''#1a1a1a''),
      (''textSecondary'', if dark then ''#a0a0a0'' else ''#666666''),
      (''border'', if dark then ''#2a2a4a'' else ''#e0e0e0''),
      (''accent'', if dark then ''#4a9eff'' else ''#0066cc''),
      (''headerBg'', if dark then ''#0f3460'' else ''#f0f4f8''),
      (''inputBg'', if dark then ''#0f1b30'' else ''#ffffff''),
      (''tabActive'', if dark then ''#4a9eff'' else ''#0066cc''),
      (''tabInactive'', if dark then ''#2a2a4a'' else ''#e9ecef''),
      (''healthy'', if dark then ''#2d6a4f'' else ''#28a745''),
      (''missing'', if dark then ''#6c757d'' else ''#adb5bd''),
      (''crown'', if dark then ''#2563eb'' else ''#007bff''),
      (''filling'', if dark then ''#ca8a04'' else ''#ffc107''),
      (''decay'', if dark then ''#dc2626'' else ''#dc3545''),
      (''rootCanal'', if dark then ''#7c3aed'' else ''#6f42c1''),
      (''implant'', if dark then ''#0d9488'' else ''#20c997''),
      (''other'', if dark then ''#a0a0a0'' else ''#6c757d'')]"

text \<open>
  \<open>CONDITION_MAP\<close>: condition label to \<open>(label, key)\<close>. The object literal also inherits
  members (\<open>constructor\<close>, \<open>__proto__\<close>); none of them has a \<open>key\<close>, so \<open>?.key\<close> is
  \<open>undefined\<close> for them as for an absent label.
\<close>

definition CONDITION_MAP :: "(string \<times> string \<times> string) list" where
  "CONDITION_MAP =
     [(''healthy'', ''Healthy'', ''healthy''),
      (''missing'', ''Missing'', ''missing''),
      (''crown'', ''Crown'', ''crown''),
      (''filling'', ''Filling'', ''filling''),
      (''decay'', ''Decay'', ''decay''),
      (''root canal'', ''Root Canal'', ''rootCanal''),
      (''rootcanal'', ''Root Canal'', ''rootCanal''),
      (''implant'', ''Implant'', ''implant'')]"

text \<open>\<open>getConditionColor\<close>; \<open>None\<close> is \<open>undefined\<close>.\<close>

definition getConditionColor :: "string \<Rightarrow> (string \<times> string) list \<Rightarrow> string option" where
  "getConditionColor condition colors =
     (let key = (case map_of CONDITION_MAP (toLowerCase condition) of
                   None \<Rightarrow> ''other''
                 | Some (label, key) \<Rightarrow> key)
      in case map_of colors key of
           None \<Rightarrow> map_of colors ''other''
         | Some c \<Rightarrow> Some c)"

text \<open>
  An element of \<open>teeth_with_conditions\<close>. Tooth numbers are integers; a condition is a
  string, \<open>None\<close> when the member is absent or \<open>null\<close>; \<open>tooth_notes\<close> is the member
  \<open>notes\<close>.
\<close>

record tooth_entry =
  tooth_number :: int
  condition :: "string option"
  surface :: "string option"
  tooth_notes :: "string option"

text \<open>\<open>toothChart.teeth_with_conditions ?? []\<close>.\<close>

definition teethConditions :: "tooth_entry list option \<Rightarrow> tooth_entry list" where
  "teethConditions twc = (case twc of None \<Rightarrow> [] | Some ts \<Rightarrow> ts)"

text \<open>\<open>toothMap\<close>: the entries are stored in list order, each under its tooth number.\<close>

definition toothMap :: "tooth_entry list \<Rightarrow> (int \<rightharpoonup> tooth_entry)" where
  "toothMap teeth = foldl (\<lambda>m t. m(tooth_number t \<mapsto> t)) Map.empty teeth"

text \<open>
  What \<open>renderTooth\<close> draws for a tooth: the condition it computes, the background colour
  of the marker, whether the marker has the dashed, translucent look of a missing tooth, and
  whether the cell is the selected one.
\<close>

record tooth_cell =
  cell_number :: int
  cell_condition :: string
  cell_color :: "string option"
  cell_dashed :: bool
  cell_selected :: bool

definition renderTooth ::
  "bool \<Rightarrow> (int \<rightharpoonup> tooth_entry) \<Rightarrow> int option \<Rightarrow> int \<Rightarrow> tooth_cell" where
  "renderTooth dark tmap selectedTooth num =
     (let data = tmap num;
          cond = (case data of
                    None \<Rightarrow> ''healthy''
                  | Some t \<Rightarrow> (case condition t of
                                None \<Rightarrow> ''healthy''
                              | Some s \<Rightarrow> toLowerCase s));
          color = getConditionColor cond (useColors dark);
          isSelected = (selectedTooth = Some num)
      in \<lparr> cell_number = num, cell_condition = cond, cell_color = color,
           cell_dashed = (cond = ''missing''), cell_selected = isSelected \<rparr>)"

text \<open>The grid: the upper arch shows teeth 1 to 16, the lower arch 32 down to 17.\<close>

definition upper :: "int list" where
  "upper = map (\<lambda>i. int i + 1) [0..<16]"

definition lower :: "int list" where
  "lower = map (\<lambda>i. 32 - int i) [0..<16]"

definition renderToothGrid ::
  "bool \<Rightarrow> tooth_entry list option \<Rightarrow> int option \<Rightarrow> tooth_cell list \<times> tooth_cell list" where
  "renderToothGrid dark twc selectedTooth =
     (let tmap = toothMap (teethConditions twc)
      in (map (renderTooth dark tmap selectedTooth) upper,
          map (renderTooth dark tmap selectedTooth) lower))"

section \<open>Example inputs\<close>

definition not_found :: response where
  "not_found = \<lparr> status = 404, statusText = ''Not Found'', body = Inl ''Unexpected token'' \<rparr>"

definition null_body :: response where
  "null_body = \<lparr> status = 200, statusText = ''OK'', body = Inr JNull \<rparr>"

definition empty_envelope :: response where
  "empty_envelope =
     \<lparr> status = 200, statusText = ''OK'', body = Inr (JObj [(''data'', JObj [])]) \<rparr>"

definition odd_count :: response where
  "odd_count =
     \<lparr> status = 200, statusText = ''OK'',
       body = Inr (JObj [(''total_count'', JObj [(''toString'', JNum ''1'')])]) \<rparr>"

text \<open>
  For the examples of the patient list: the code units of a literal, and the host's
  \<open>toLowerCase\<close> as it acts on strings whose code units are all below 256.
\<close>

definition units :: "string \<Rightarrow> jsstring" where
  "units s = map (\<lambda>c. of_nat (of_char c)) s"

definition latin1_lc :: "jsstring \<Rightarrow> jsstring" where
  "latin1_lc s =
     map (\<lambda>u. if (0x41 \<le> u \<and> u \<le> 0x5A) \<or> (0xC0 \<le> u \<and> u \<le> 0xDE \<and> u \<noteq> 0xD7)
              then u + 0x20 else u) s"

definition jane_doe :: patient where
  "jane_doe =
     \<lparr> patient_id = Some 1, first_name = units ''Jane'', last_name = units ''Doe'',
       age = Some 40, wireless_phone = Some (units ''775-555-0100''), home_phone = None,
       work_phone = None, address = None, city = Some (units ''Reno''),
       patient_status = Some (units ''active'') \<rparr>"

definition sam_adams :: patient where
  "sam_adams =
     \<lparr> patient_id = Some 2, first_name = units ''Sam'', last_name = units ''adams'',
       age = None, wireless_phone = None, home_phone = Some (units ''775-555-0111''),
       work_phone = None, address = None, city = Some (units ''Sparks''),
       patient_status = None \<rparr>"

definition al_brown :: patient where
  "al_brown =
     \<lparr> patient_id = None, first_name = units ''Al'', last_name = units ''Brown'',
       age = Some 7, wireless_phone = None, home_phone = None, work_phone = None,
       address = None, city = None, patient_status = Some (units ''Inactive'') \<rparr>"

text \<open>Two patients with accented names: \<open>0xC9\<close> is the capital E with acute, \<open>0xE9\<close> the
  small one.\<close>

definition emile_eb :: patient where
  "emile_eb =
     \<lparr> patient_id = Some 5, first_name = 0xC9 # units ''mile'', last_name = 0xC9 # units ''b'',
       age = Some 31, wireless_phone = None, home_phone = None, work_phone = None,
       address = None, city = None, patient_status = None \<rparr>"

definition eric_ea :: patient where
  "eric_ea =
     \<lparr> patient_id = Some 6, first_name = units ''Eric'', last_name = 0xE9 # units ''a'',
       age = Some 52, wireless_phone = None, home_phone = None, work_phone = None,
       address = None, city = None, patient_status = None \<rparr>"

definition tooth3 :: tooth_entry where
  "tooth3 =
     \<lparr> tooth_number = 3, condition = Some ''Root Canal'', surface = None, tooth_notes = None \<rparr>"

definition tooth3_crown :: tooth_entry where
  "tooth3_crown =
     \<lparr> tooth_number = 3, condition = Some ''CROWN'', surface = Some ''MOD'', tooth_notes = None \<rparr>"

definition tooth14 :: tooth_entry where
  "tooth14 =
     \<lparr> tooth_number = 14, condition = Some ''Veneer'', surface = None, tooth_notes = None \<rparr>"

definition baby_roe :: patient where
  "baby_roe =
     \<lparr> patient_id = Some 4, first_name = units ''Bo'', last_name = units ''Roe'',
       age = Some 0, wireless_phone = None, home_phone = None,
       work_phone = Some (units ''775-555-0122''), address = None,
       city = Some (units ''reno''), patient_status = Some (units ''active'') \<rparr>"

definition bare_count :: response where
  "bare_count =
     \<lparr> status = 200, statusText = ''OK'',
       body = Inr (JObj [(''data'', JObj [(''total_count'', JStr ''7'')])]) \<rparr>"

section \<open>Verification: the server\<close>

subsection \<open>Facts about strings\<close>

lemma starts_with_append: "starts_with (q @ b) q"
  by (induction q) auto

lemma includes_str_here: "starts_with s q \<Longrightarrow> includes_str s q"
  by (cases s; cases q) auto

lemma includes_str_append_left: "includes_str s q \<Longrightarrow> includes_str (a @ s) q"
  by (induction a) auto

lemma includes_str_middle: "includes_str (a @ q @ b) q"
  by (simp add: includes_str_append_left includes_str_here starts_with_append)

text \<open>\<open>includes_str\<close> is the library's contiguous-sublist relation.\<close>

lemma starts_with_prefix: "starts_with s q \<longleftrightarrow> prefix q s"
  by (induction s q rule: starts_with.induct) auto

lemma includes_str_sublist: "includes_str s q \<longleftrightarrow> sublist q s"
  by (induction s) (auto simp: starts_with_prefix sublist_Cons_right)

lemma show_404: "show_nat 404 = ''404''"
  by (simp add: show_nat.simps digit_char_def)

subsection \<open>The backend caller\<close>

lemma unwrap_total: "j \<noteq> JNull \<Longrightarrow> \<exists>d. unwrap j = Inr d \<and> d \<noteq> JNull"
  by (auto simp: unwrap_def split: option.splits)

lemma callBackend_ok:
  "net (backend_request p m ps t) = Resolved res \<Longrightarrow> ok res \<Longrightarrow>
   callBackend net p m ps t = body res"
  by (simp add: callBackend_def)

lemma callBackend_not_ok:
  "net (backend_request p m ps t) = Resolved res \<Longrightarrow> \<not> ok res \<Longrightarrow>
   callBackend net p m ps t =
     Inl (''Backend returned '' @ show_nat (status res) @ '': '' @ statusText res)"
  by (simp add: callBackend_def)

text \<open>
  C2. When the backend answers a tool's request with an HTTP status of 400 or more, the tool
  (\<open>get-patients\<close>, \<open>get-patient-chart\<close> or \<open>get-reports\<close>) returns an error, and the decimal
  status code occurs in the error's message.
\<close>

theorem http_error_carries_status:
  assumes "net (tool_request t patient_name) = Resolved res" and "400 \<le> status res"
  shows "\<exists>msg. run_tool net t patient_name = ToolError msg
               \<and> includes_str msg (show_nat (status res))"
proof -
  from assms(2) have nok: "\<not> ok res" by (simp add: ok_def)
  let ?thrown = "''Backend returned '' @ show_nat (status res) @ '': '' @ statusText res"
  have inc: "includes_str (pre @ ?thrown) (show_nat (status res))" for pre
    using includes_str_middle
      [of "pre @ ''Backend returned ''" "show_nat (status res)" "'': '' @ statusText res"]
    by simp
  show ?thesis
  proof (cases t)
    case GetPatients
    with assms(1) have "callBackend net ''/api/patients'' (Some POST) None
        (Some (TOOL_TIMEOUTS GetPatients)) = Inl ?thrown"
      using nok by (intro callBackend_not_ok) (simp_all add: tool_request_def)
    then have "run_tool net t patient_name = ToolError (''Failed to fetch patients: '' @ ?thrown)"
      by (simp add: run_tool_def GetPatients get_patients_def)
    with inc show ?thesis by blast
  next
    case GetPatientChart
    with assms(1) have "callBackend net ''/api/patient_chart'' (Some POST)
        (Some [(''patient_name'', patient_name)]) (Some (TOOL_TIMEOUTS GetPatientChart))
        = Inl ?thrown"
      using nok by (intro callBackend_not_ok) (simp_all add: tool_request_def)
    then have "run_tool net t patient_name = ToolError (''Failed to fetch chart: '' @ ?thrown)"
      by (simp add: run_tool_def GetPatientChart get_patient_chart_def)
    with inc show ?thesis by blast
  next
    case GetReports
    with assms(1) have "callBackend net ''/api/reports'' (Some POST)
        (Some [(''patient_name'', patient_name)]) (Some (TOOL_TIMEOUTS GetReports))
        = Inl ?thrown"
      using nok by (intro callBackend_not_ok) (simp_all add: tool_request_def)
    then have "run_tool net t patient_name = ToolError (''Failed to fetch report: '' @ ?thrown)"
      by (simp add: run_tool_def GetReports get_reports_def)
    with inc show ?thesis by blast
  qed
qed

theorem http_error_carries_status_witness:
  "always (Resolved not_found) (tool_request GetReports ''Jane Doe'') = Resolved not_found
   \<and> 400 \<le> status not_found
   \<and> run_tool (always (Resolved not_found)) GetReports ''Jane Doe''
       = ToolError ''Failed to fetch report: Backend returned 404: Not Found''
   \<and> includes_str ''Failed to fetch report: Backend returned 404: Not Found'' ''404''"
  using http_error_carries_status
    [of "always (Resolved not_found)" GetReports "''Jane Doe''" not_found]
  by (simp add: always_def not_found_def run_tool_def get_reports_def callBackend_def ok_def
      show_404)

lemma tool_request_simps:
  "tool_request GetPatients n =
     backend_request ''/api/patients'' (Some POST) None (Some (TOOL_TIMEOUTS GetPatients))"
  "tool_request GetPatientChart n =
     backend_request ''/api/patient_chart'' (Some POST) (Some [(''patient_name'', n)])
       (Some (TOOL_TIMEOUTS GetPatientChart))"
  "tool_request GetReports n =
     backend_request ''/api/reports'' (Some POST) (Some [(''patient_name'', n)])
       (Some (TOOL_TIMEOUTS GetReports))"
  by (simp_all add: tool_request_def)

lemma show_nat_0: "show_nat 0 = ''0''"
  by (simp add: show_nat.simps digit_char_def)

subsection \<open>A body without the promised sub-object\<close>

text \<open>
  C1. The claim asks for the specific "no data" message whenever a successfully parsed
  body has no \<open>patient_chart\<close> (for \<open>get-reports\<close>: no \<open>patient_report\<close>). At one parsed body
  the code does something else: for the JSON value \<open>null\<close> the read of \<open>json.data\<close> throws
  before the check \<open>if (!chart)\<close> is reached, and both handlers answer with the
  exception-wrapping message, not with the "no data" message.
\<close>

theorem null_body_generic_error:
  "get_patient_chart (always (Resolved null_body)) ''Jane Doe''
     = ToolError ''Failed to fetch chart: Cannot read properties of null (reading 'data')''
   \<and> get_patient_chart (always (Resolved null_body)) ''Jane Doe''
     \<noteq> ToolError ''No chart data returned for this patient.''
   \<and> get_reports (always (Resolved null_body)) ''Jane Doe''
     = ToolError ''Failed to fetch report: Cannot read properties of null (reading 'data')''
   \<and> get_reports (always (Resolved null_body)) ''Jane Doe''
     \<noteq> ToolError ''No report data returned for this patient.''"
  by (simp add: get_patient_chart_def get_reports_def get_patient_chart_body_def
      get_reports_body_def callBackend_def always_def null_body_def ok_def unwrap_def
      null_read_message_def)

text \<open>
  Every other parsed body reaches the check: the unwrapped body \<open>json.data ?? json\<close> exists,
  and when its \<open>patient_chart\<close> (resp. \<open>patient_report\<close>) is absent or \<open>null\<close> the handler
  returns "No chart data returned for this patient." (resp. "No report data returned for
  this patient."), which is none of the exception-wrapping messages.
\<close>

lemma missing_sub_object_message:
  assumes "ok res" and "body res = Inr j" and "j \<noteq> JNull"
  shows "\<exists>data. unwrap j = Inr data
     \<and> (net (tool_request GetPatientChart patient_name) = Resolved res
          \<and> nullish (get_prop data ''patient_chart'')
        \<longrightarrow> get_patient_chart net patient_name
              = ToolError ''No chart data returned for this patient.'')
     \<and> (net (tool_request GetReports patient_name) = Resolved res
          \<and> nullish (get_prop data ''patient_report'')
        \<longrightarrow> get_reports net patient_name
              = ToolError ''No report data returned for this patient.'')
     \<and> (\<forall>msg. ''No chart data returned for this patient.'' \<noteq> ''Failed to fetch chart: '' @ msg)
     \<and> (\<forall>msg. ''No report data returned for this patient.'' \<noteq> ''Failed to fetch report: '' @ msg)"
proof -
  from assms(3) obtain data where d: "unwrap j = Inr data"
    using unwrap_total by blast
  have chart: "get_patient_chart net patient_name
      = ToolError ''No chart data returned for this patient.''"
    if "net (tool_request GetPatientChart patient_name) = Resolved res"
      and "nullish (get_prop data ''patient_chart'')"
  proof -
    from that(1) assms(1,2) have "callBackend net ''/api/patient_chart'' (Some POST)
        (Some [(''patient_name'', patient_name)]) (Some (TOOL_TIMEOUTS GetPatientChart)) = Inr j"
      by (simp add: callBackend_ok tool_request_simps)
    with that(2) show ?thesis
      by (auto simp: get_patient_chart_def get_patient_chart_body_def d nullish_def)
  qed
  have report: "get_reports net patient_name
      = ToolError ''No report data returned for this patient.''"
    if "net (tool_request GetReports patient_name) = Resolved res"
      and "nullish (get_prop data ''patient_report'')"
  proof -
    from that(1) assms(1,2) have "callBackend net ''/api/reports'' (Some POST)
        (Some [(''patient_name'', patient_name)]) (Some (TOOL_TIMEOUTS GetReports)) = Inr j"
      by (simp add: callBackend_ok tool_request_simps)
    with that(2) show ?thesis
      by (auto simp: get_reports_def get_reports_body_def d nullish_def)
  qed
  from d chart report show ?thesis by simp
qed

lemma missing_sub_object_message_example:
  "ok empty_envelope \<and> body empty_envelope = Inr (JObj [(''data'', JObj [])])
   \<and> JObj [(''data'', JObj [])] \<noteq> JNull
   \<and> unwrap (JObj [(''data'', JObj [])]) = Inr (JObj [])
   \<and> nullish (get_prop (JObj []) ''patient_chart'')
   \<and> nullish (get_prop (JObj []) ''patient_report'')
   \<and> always (Resolved empty_envelope) (tool_request GetPatientChart ''Jane Doe'')
       = Resolved empty_envelope
   \<and> always (Resolved empty_envelope) (tool_request GetReports ''Jane Doe'')
       = Resolved empty_envelope
   \<and> get_patient_chart (always (Resolved empty_envelope)) ''Jane Doe''
       = ToolError ''No chart data returned for this patient.''
   \<and> get_reports (always (Resolved empty_envelope)) ''Jane Doe''
       = ToolError ''No report data returned for this patient.''"
  using missing_sub_object_message
    [of empty_envelope "JObj [(''data'', JObj [])]" "always (Resolved empty_envelope)"
        "''Jane Doe''"]
  by (simp add: empty_envelope_def ok_def always_def unwrap_def nullish_def)

subsection \<open>Timeouts\<close>

text \<open>
  C7, as stated, fails: no tool's configured timeout strictly exceeds the timeout another
  tool's invocation uses, whichever of the tools count as report generation.
\<close>

theorem timeouts_not_distinguished:
  "\<not> timeoutMs (tool_request GetPatients []) < TOOL_TIMEOUTS GetReports
   \<and> \<not> timeoutMs (tool_request GetPatients []) < TOOL_TIMEOUTS GetPatientChart
   \<and> \<not> timeoutMs (tool_request GetPatientChart ''Jane Doe'') < TOOL_TIMEOUTS GetReports
   \<and> \<not> timeoutMs (tool_request GetReports ''Jane Doe'') < TOOL_TIMEOUTS GetPatientChart
   \<and> \<not> timeoutMs (tool_request GetPatientChart ''Jane Doe'') < TOOL_TIMEOUTS GetPatients
   \<and> \<not> timeoutMs (tool_request GetReports ''Jane Doe'') < TOOL_TIMEOUTS GetPatients"
  by (simp add: tool_request_def backend_request_def TOOL_TIMEOUTS_def)

text \<open>
  C7 (amended). The backend caller's timeout is set per call: a call that passes a timeout
  runs with it, a call that passes none runs with the default of 300000 ms. Every tool
  passes its entry of the table \<open>TOOL_TIMEOUTS\<close>, and the three entries are the same
  1800000 ms, longer than the default, which no tool uses.
\<close>

theorem timeouts_uniform:
  "timeoutMs (tool_request t patient_name) = TOOL_TIMEOUTS t
   \<and> TOOL_TIMEOUTS t = 1800000
   \<and> timeoutMs (backend_request p m ps (Some ms)) = ms
   \<and> timeoutMs (backend_request p m ps None) = 300000
   \<and> timeoutMs (backend_request p m ps None) < TOOL_TIMEOUTS t"
  by (cases t)
    (simp_all add: tool_request_def backend_request_def TOOL_TIMEOUTS_def default_timeoutMs_def)

subsection \<open>\<open>get-patients\<close> without a patient list\<close>

text \<open>
  C9. The claim asks \<open>get-patients\<close> for a success payload with an empty patient list
  whenever a successfully parsed body has no \<open>patients\<close> member. The code returns an error
  instead at the parsed body \<open>null\<close>, where the read of \<open>json.data\<close> throws before the
  defaults apply (the defect of C1), and also at a \<open>total_count\<close> that is an object with a
  member called \<open>toString\<close>, where the template literal of the summary throws.
\<close>

theorem get_patients_throws:
  "get_patients (always (Resolved null_body))
     = ToolError ''Failed to fetch patients: Cannot read properties of null (reading 'data')''
   \<and> get_patients (always (Resolved odd_count))
     = ToolError ''Failed to fetch patients: Cannot convert object to primitive value''"
  by (simp add: get_patients_def get_patients_body_def callBackend_def always_def null_body_def
      odd_count_def ok_def unwrap_def null_read_message_def nullish_def interpolate_def
      to_primitive_message_def)

text \<open>
  For every other parsed body without a \<open>patients\<close> member (or with a \<open>null\<close> one) the
  defaults apply: when \<open>total_count\<close> is absent or \<open>null\<close> as well, the handler returns the
  success payload with the empty patient list, the count 0 and the text "Found 0
  patient(s). Use the table to browse or click a patient for details."; when \<open>total_count\<close>
  is present and has a string form, the payload carries that count and the text prints it.
  Every error of \<open>get-patients\<close> is an exception-wrapping "Failed to fetch patients: ..."
  message.
\<close>

lemma get_patients_defaults:
  assumes "net (tool_request GetPatients patient_name) = Resolved res"
    and "ok res" and "body res = Inr j" and "j \<noteq> JNull"
  shows "\<exists>data. unwrap j = Inr data
     \<and> (nullish (get_prop data ''patients'') \<and> nullish (get_prop data ''total_count'')
        \<longrightarrow> get_patients net =
              Widget [(''patients'', Some (JArr [])), (''totalCount'', Some (JNum ''0''))]
                ''Found 0 patient(s). Use the table to browse or click a patient for details.'')
     \<and> (\<forall>tc s. nullish (get_prop data ''patients'') \<and> get_prop data ''total_count'' = Some tc
                 \<and> tc \<noteq> JNull \<and> js_string tc = Some s
        \<longrightarrow> get_patients net =
              Widget [(''patients'', Some (JArr [])), (''totalCount'', Some tc)]
                (''Found '' @ s @
                 '' patient(s). Use the table to browse or click a patient for details.''))
     \<and> (\<forall>msg. get_patients net = ToolError msg
        \<longrightarrow> starts_with msg ''Failed to fetch patients: '')"
proof -
  from assms(4) obtain data where d: "unwrap j = Inr data"
    using unwrap_total by blast
  from assms(1-3) have cb: "callBackend net ''/api/patients'' (Some POST) None
      (Some (TOOL_TIMEOUTS GetPatients)) = Inr j"
    by (simp add: callBackend_ok tool_request_simps)
  have a: "get_patients net =
      Widget [(''patients'', Some (JArr [])), (''totalCount'', Some (JNum ''0''))]
        ''Found 0 patient(s). Use the table to browse or click a patient for details.''"
    if "nullish (get_prop data ''patients'')" and "nullish (get_prop data ''total_count'')"
    using that
    by (simp add: get_patients_def get_patients_body_def cb d interpolate_def show_nat_0)
  have b: "get_patients net =
      Widget [(''patients'', Some (JArr [])), (''totalCount'', Some tc)]
        (''Found '' @ s @ '' patient(s). Use the table to browse or click a patient for details.'')"
    if "nullish (get_prop data ''patients'')" and "get_prop data ''total_count'' = Some tc"
      and "tc \<noteq> JNull" and "js_string tc = Some s" for tc s
    using that
    by (simp add: get_patients_def get_patients_body_def cb d interpolate_def nullish_def)
  have c: "starts_with msg ''Failed to fetch patients: ''"
    if "get_patients net = ToolError msg" for msg
    using that starts_with_append [of "''Failed to fetch patients: ''"]
    by (auto simp: get_patients_def get_patients_body_def Let_def split: sum.splits)
  from d a b c show ?thesis by blast
qed

lemma get_patients_defaults_example:
  "always (Resolved empty_envelope) (tool_request GetPatients []) = Resolved empty_envelope
   \<and> ok empty_envelope \<and> body empty_envelope = Inr (JObj [(''data'', JObj [])])
   \<and> JObj [(''data'', JObj [])] \<noteq> JNull
   \<and> unwrap (JObj [(''data'', JObj [])]) = Inr (JObj [])
   \<and> nullish (get_prop (JObj []) ''patients'') \<and> nullish (get_prop (JObj []) ''total_count'')
   \<and> get_patients (always (Resolved empty_envelope)) =
        Widget [(''patients'', Some (JArr [])), (''totalCount'', Some (JNum ''0''))]
          ''Found 0 patient(s). Use the table to browse or click a patient for details.''
   \<and> always (Resolved bare_count) (tool_request GetPatients []) = Resolved bare_count
   \<and> ok bare_count
   \<and> body bare_count = Inr (JObj [(''data'', JObj [(''total_count'', JStr ''7'')])])
   \<and> unwrap (JObj [(''data'', JObj [(''total_count'', JStr ''7'')])])
       = Inr (JObj [(''total_count'', JStr ''7'')])
   \<and> nullish (get_prop (JObj [(''total_count'', JStr ''7'')]) ''patients'')
   \<and> get_prop (JObj [(''total_count'', JStr ''7'')]) ''total_count'' = Some (JStr ''7'')
   \<and> js_string (JStr ''7'') = Some ''7''
   \<and> get_patients (always (Resolved bare_count)) =
        Widget [(''patients'', Some (JArr [])), (''totalCount'', Some (JStr ''7''))]
          ''Found 7 patient(s). Use the table to browse or click a patient for details.''"
  using get_patients_defaults
    [of "always (Resolved empty_envelope)" "[]" empty_envelope "JObj [(''data'', JObj [])]"]
    get_patients_defaults
    [of "always (Resolved bare_count)" "[]" bare_count
        "JObj [(''data'', JObj [(''total_count'', JStr ''7'')])]"]
  by (simp add: empty_envelope_def bare_count_def ok_def always_def unwrap_def nullish_def)

section \<open>Verification: pagination\<close>

text \<open>\<open>ceil_div\<close> is the ceiling of the quotient.\<close>

lemma ceil_div_ceiling:
  assumes "0 < k"
  shows "ceil_div n k = \<lceil>real n / real k\<rceil>"
proof -
  define m where "m = (n + k - 1) div k"
  define r where "r = (n + k - 1) mod k"
  have e: "m * k + r = n + k - 1" by (simp add: m_def r_def)
  have r: "r < k" using assms by (simp add: r_def)
  have 1: "n \<le> m * k" using e r by linarith
  have 2: "m * k < n + k" using e r assms by linarith
  from 1 have "real n \<le> real (m * k)" by (rule of_nat_mono)
  then have a: "real n / real k \<le> real m" using assms by (simp add: divide_le_eq)
  from 2 have "real (m * k) < real (n + k)" by (simp only: of_nat_less_iff)
  then have "(real m - 1) * real k < real n" by (simp add: algebra_simps)
  then have b: "real m - 1 < real n / real k" using assms by (simp add: less_divide_eq)
  have "\<lceil>real n / real k\<rceil> = int m"
    by (rule ceiling_unique) (use a b in simp_all)
  then show ?thesis by (simp add: m_def ceil_div_def)
qed

lemma safePage_bounds:
  "1 \<le> p \<Longrightarrow> 1 \<le> safePage per p n \<and> safePage per p n \<le> totalPages per n"
  by (simp add: safePage_def totalPages_def)

text \<open>Every operation on the page state keeps it at 1 or above.\<close>

lemma list_event_page: "1 \<le> page st \<Longrightarrow> 1 \<le> page (on_list_event lc pending ps st e)"
  by (cases e) (auto simp: on_list_event_def Let_def toggleSort_def safePage_def totalPages_def)

lemma list_session_page: "1 \<le> page (list_session lc evs)"
proof (induction evs rule: rev_induct)
  case Nil
  show ?case by (simp add: list_session_def initial_list_state_def)
next
  case (snoc x evs)
  then show ?case
    by (cases x) (simp add: list_session_def list_event_page split: prod.splits)
qed

lemma report_event_page:
  "1 \<le> acctPage st \<Longrightarrow> 1 \<le> acctPage (on_report_event pending txs st e)"
  by (cases e) (auto simp: on_report_event_def Let_def safePage_def totalPages_def)

lemma report_session_page: "1 \<le> acctPage (report_session evs)"
proof (induction evs rule: rev_induct)
  case Nil
  show ?case by (simp add: report_session_def initial_report_state_def)
next
  case (snoc x evs)
  then show ?case
    by (cases x) (simp add: report_session_def report_event_page split: prod.splits)
qed

text \<open>An instance: two clicks on Next over 21 rows lead to page 3; when the search then
  leaves 5 rows, the page index is 1.\<close>

lemma example_page_shrinks:
  "page (list_session latin1_lc
      [(False, Some (replicate 21 sam_adams), NextClick),
       (False, Some (replicate 21 sam_adams), NextClick)]) = 3
   \<and> safePage PAGE_SIZE 3 21 = 3
   \<and> safePage PAGE_SIZE 3 5 = 1"
  by code_simp

text \<open>
  C3. For every row count \<open>n\<close> and every page state the patient list reaches through a
  session of its events (search input, header clicks, Prev, Next, under whatever props each
  event meets, and whatever the lower-casing function \<open>lc\<close> is), the page index \<open>safePage\<close> lies between 1 and \<open>max(1, ceil(n / 10))\<close>; and
  for every number \<open>m\<close> of transactions and every page state the report widget reaches,
  \<open>safePage\<close> lies between 1 and \<open>max(1, ceil(m / 15))\<close>. The count is independent of the
  session, so a set that has shrunk since the page was chosen clamps the page.
\<close>

theorem safePage_in_range:
  "1 \<le> safePage PAGE_SIZE (page (list_session lc evs)) n
   \<and> safePage PAGE_SIZE (page (list_session lc evs)) n \<le> max 1 \<lceil>real n / 10\<rceil>
   \<and> 1 \<le> safePage perPage (acctPage (report_session tevs)) m
   \<and> safePage perPage (acctPage (report_session tevs)) m \<le> max 1 \<lceil>real m / 15\<rceil>"
proof -
  have a: "totalPages PAGE_SIZE n = max 1 \<lceil>real n / 10\<rceil>"
    using ceil_div_ceiling [of 10 n] by (simp add: totalPages_def PAGE_SIZE_def)
  have b: "totalPages perPage m = max 1 \<lceil>real m / 15\<rceil>"
    using ceil_div_ceiling [of 15 m] by (simp add: totalPages_def perPage_def)
  have c: "1 \<le> safePage PAGE_SIZE (page (list_session lc evs)) n
      \<and> safePage PAGE_SIZE (page (list_session lc evs)) n \<le> totalPages PAGE_SIZE n"
    by (rule safePage_bounds [OF list_session_page])
  have d: "1 \<le> safePage perPage (acctPage (report_session tevs)) m
      \<and> safePage perPage (acctPage (report_session tevs)) m \<le> totalPages perPage m"
    by (rule safePage_bounds [OF report_session_page])
  from a b c d show ?thesis by simp
qed

section \<open>Verification: the patient list\<close>

subsection \<open>The stable sort\<close>

lemma set_insert_by: "set (insert_by cmp x ys) = insert x (set ys)"
  by (induction ys) auto

lemma mset_insert_by: "mset (insert_by cmp x ys) = add_mset x (mset ys)"
  by (induction ys) auto

lemma mset_js_sort: "mset (js_sort cmp xs) = mset xs"
  by (induction xs) (simp_all add: js_sort_def mset_insert_by)

lemma js_sort_Cons: "js_sort cmp (x # xs) = insert_by cmp x (js_sort cmp xs)"
  by (simp add: js_sort_def)

lemma js_sort_Nil: "js_sort cmp [] = []"
  by (simp add: js_sort_def)

lemma set_js_sort: "set (js_sort cmp xs) = set xs"
  by (induction xs) (simp_all add: js_sort_Nil js_sort_Cons set_insert_by)

lemma length_js_sort: "length (js_sort cmp xs) = length xs"
  using mset_js_sort [of cmp xs] by (metis size_mset)

lemma sorted_insert_by:
  assumes total: "\<And>a b. cmp a b \<le> 0 \<or> cmp b a \<le> 0"
    and trans: "\<And>a b c. cmp a b \<le> 0 \<Longrightarrow> cmp b c \<le> 0 \<Longrightarrow> cmp a c \<le> 0"
  shows "sorted_wrt (\<lambda>a b. cmp a b \<le> 0) ys \<Longrightarrow> sorted_wrt (\<lambda>a b. cmp a b \<le> 0) (insert_by cmp x ys)"
proof (induction ys)
  case Nil
  show ?case by simp
next
  case (Cons y ys)
  show ?case
  proof (cases "cmp x y \<le> 0")
    case True
    with Cons.prems trans show ?thesis by auto
  next
    case False
    with total have "cmp y x \<le> 0" by blast
    with False Cons show ?thesis by (auto simp: set_insert_by)
  qed
qed

lemma sorted_js_sort:
  assumes "\<And>a b. cmp a b \<le> 0 \<or> cmp b a \<le> 0"
    and "\<And>a b c. cmp a b \<le> 0 \<Longrightarrow> cmp b c \<le> 0 \<Longrightarrow> cmp a c \<le> 0"
  shows "sorted_wrt (\<lambda>a b. cmp a b \<le> 0) (js_sort cmp xs)"
  by (induction xs) (simp_all add: js_sort_Nil js_sort_Cons sorted_insert_by [OF assms])

lemma insert_by_least: "(\<And>z. z \<in> set zs \<Longrightarrow> cmp x z \<le> 0) \<Longrightarrow> insert_by cmp x zs = x # zs"
  by (cases zs) auto

lemma filter_insert_by:
  assumes trans: "\<And>a b c. cmp a b \<le> 0 \<Longrightarrow> cmp b c \<le> 0 \<Longrightarrow> cmp a c \<le> 0"
  shows "sorted_wrt (\<lambda>a b. cmp a b \<le> 0) ys \<Longrightarrow>
    filter P (insert_by cmp x ys) = (if P x then insert_by cmp x (filter P ys) else filter P ys)"
proof (induction ys)
  case Nil
  show ?case by simp
next
  case (Cons y ys)
  show ?case
  proof (cases "cmp x y \<le> 0")
    case True
    have "cmp x z \<le> 0" if "z \<in> set (filter P (y # ys))" for z
    proof -
      from that have "z = y \<or> z \<in> set ys" by (auto split: if_splits)
      with Cons.prems have "z = y \<or> cmp y z \<le> 0" by auto
      with True trans show ?thesis by blast
    qed
    then have "insert_by cmp x (filter P (y # ys)) = x # filter P (y # ys)"
      by (rule insert_by_least)
    with True show ?thesis by simp
  next
    case False
    with Cons show ?thesis by simp
  qed
qed

lemma filter_js_sort:
  assumes "\<And>a b. cmp a b \<le> 0 \<or> cmp b a \<le> 0"
    and "\<And>a b c. cmp a b \<le> 0 \<Longrightarrow> cmp b c \<le> 0 \<Longrightarrow> cmp a c \<le> 0"
  shows "filter P (js_sort cmp xs) = js_sort cmp (filter P xs)"
  by (induction xs)
    (simp_all add: js_sort_Nil js_sort_Cons filter_insert_by [OF assms(2) sorted_js_sort [OF assms]])

lemma stable_insert_by:
  assumes "\<And>a b. f a = f b \<Longrightarrow> cmp a b \<le> 0"
  shows "filter (\<lambda>y. f y = v) (insert_by cmp x ys) =
    (if f x = v then x # filter (\<lambda>y. f y = v) ys else filter (\<lambda>y. f y = v) ys)"
  using assms by (induction ys) auto

lemma stable_js_sort:
  assumes "\<And>a b. f a = f b \<Longrightarrow> cmp a b \<le> 0"
  shows "filter (\<lambda>y. f y = v) (js_sort cmp xs) = filter (\<lambda>y. f y = v) xs"
  by (induction xs) (simp_all add: js_sort_Nil js_sort_Cons stable_insert_by [of f cmp, OF assms])

text \<open>
  The model of the sort depends on no algorithm: for a comparator that is total and
  transitive, every rearrangement of the array that is sorted and keeps each class of tied
  elements in its order is the list \<open>js_sort\<close> computes.
\<close>

lemma tie_insert_by:
  assumes trans: "\<And>a b c. cmp a b \<le> 0 \<Longrightarrow> cmp b c \<le> 0 \<Longrightarrow> cmp a c \<le> 0"
  shows "filter (\<lambda>y. cmp a y \<le> 0 \<and> cmp y a \<le> 0) (insert_by cmp x ys) =
    (if cmp a x \<le> 0 \<and> cmp x a \<le> 0
     then x # filter (\<lambda>y. cmp a y \<le> 0 \<and> cmp y a \<le> 0) ys
     else filter (\<lambda>y. cmp a y \<le> 0 \<and> cmp y a \<le> 0) ys)"
proof (induction ys)
  case Nil
  show ?case by simp
next
  case (Cons y ys)
  show ?case
  proof (cases "cmp x y \<le> 0")
    case True
    then show ?thesis by simp
  next
    case False
    have "\<not> (cmp a y \<le> 0 \<and> cmp y a \<le> 0)" if "cmp a x \<le> 0 \<and> cmp x a \<le> 0"
      using that False trans by blast
    with False Cons show ?thesis by auto
  qed
qed

lemma tie_js_sort:
  assumes "\<And>a b c. cmp a b \<le> 0 \<Longrightarrow> cmp b c \<le> 0 \<Longrightarrow> cmp a c \<le> 0"
  shows "filter (\<lambda>y. cmp a y \<le> 0 \<and> cmp y a \<le> 0) (js_sort cmp xs)
       = filter (\<lambda>y. cmp a y \<le> 0 \<and> cmp y a \<le> 0) xs"
  by (induction xs) (simp_all add: js_sort_Nil js_sort_Cons tie_insert_by [of cmp, OF assms])

lemma stable_sorted_unique:
  assumes total: "\<And>a b. cmp a b \<le> 0 \<or> cmp b a \<le> 0"
  shows "sorted_wrt (\<lambda>a b. cmp a b \<le> 0) ys \<Longrightarrow> sorted_wrt (\<lambda>a b. cmp a b \<le> 0) zs \<Longrightarrow>
    mset ys = mset zs \<Longrightarrow>
    (\<And>a. filter (\<lambda>y. cmp a y \<le> 0 \<and> cmp y a \<le> 0) ys
          = filter (\<lambda>y. cmp a y \<le> 0 \<and> cmp y a \<le> 0) zs) \<Longrightarrow>
    ys = zs"
proof (induction ys arbitrary: zs)
  case Nil
  then show ?case by simp
next
  case (Cons y ys)
  from Cons.prems(3) obtain z zs' where zs: "zs = z # zs'"
    by (cases zs) auto
  have refl: "cmp a a \<le> 0" for a using total [of a a] by simp
  have "z \<in> set (y # ys)"
    using Cons.prems(3) zs by (metis list.set_intros(1) set_mset_mset)
  with Cons.prems(1) refl have yz: "cmp y z \<le> 0" by auto
  have "y \<in> set (z # zs')"
    using Cons.prems(3) zs by (metis list.set_intros(1) set_mset_mset)
  with Cons.prems(2) zs refl have zy: "cmp z y \<le> 0" by auto
  from Cons.prems(4) [of y] refl yz zy zs have "y = z" by simp
  with zs have zs': "zs = y # zs'" by simp
  have "ys = zs'"
  proof (rule Cons.IH)
    show "sorted_wrt (\<lambda>a b. cmp a b \<le> 0) ys" using Cons.prems(1) by simp
    show "sorted_wrt (\<lambda>a b. cmp a b \<le> 0) zs'" using Cons.prems(2) zs' by simp
    show "mset ys = mset zs'" using Cons.prems(3) zs' by simp
    show "filter (\<lambda>y. cmp a y \<le> 0 \<and> cmp y a \<le> 0) ys
        = filter (\<lambda>y. cmp a y \<le> 0 \<and> cmp y a \<le> 0) zs'" for a
      using Cons.prems(4) [of a] zs' by (simp split: if_splits)
  qed
  with zs' show ?case by simp
qed

lemma js_sort_unique:
  assumes total: "\<And>a b. cmp a b \<le> 0 \<or> cmp b a \<le> 0"
    and trans: "\<And>a b c. cmp a b \<le> 0 \<Longrightarrow> cmp b c \<le> 0 \<Longrightarrow> cmp a c \<le> 0"
    and "mset ys = mset xs"
    and "sorted_wrt (\<lambda>a b. cmp a b \<le> 0) ys"
    and "\<And>a. filter (\<lambda>y. cmp a y \<le> 0 \<and> cmp y a \<le> 0) ys
          = filter (\<lambda>y. cmp a y \<le> 0 \<and> cmp y a \<le> 0) xs"
  shows "ys = js_sort cmp xs"
proof (rule stable_sorted_unique [OF total])
  show "sorted_wrt (\<lambda>a b. cmp a b \<le> 0) ys" by fact
  show "sorted_wrt (\<lambda>a b. cmp a b \<le> 0) (js_sort cmp xs)"
    by (rule sorted_js_sort [OF total trans])
  show "mset ys = mset (js_sort cmp xs)" using assms(3) by (simp add: mset_js_sort)
  show "filter (\<lambda>y. cmp a y \<le> 0 \<and> cmp y a \<le> 0) ys
      = filter (\<lambda>y. cmp a y \<le> 0 \<and> cmp y a \<le> 0) (js_sort cmp xs)" for a
    using assms(5) [of a] by (simp add: tie_js_sort [of cmp, OF trans])
qed

lemma compare3_le: "compare3 d a b \<le> 0 \<longleftrightarrow> (if d = Asc then a \<le> b else b \<le> a)"
  by (auto simp: compare3_def)

lemma compare_patients_le:
  "compare_patients lc k d a b \<le> 0 \<longleftrightarrow>
     (if k = K_age then (if d = Asc then age_key a \<le> age_key b else age_key b \<le> age_key a)
      else (if d = Asc then string_key lc k a \<le> string_key lc k b else string_key lc k b \<le> string_key lc k a))"
  by (simp add: compare_patients_def compare3_le)

lemma compare_patients_total: "compare_patients lc k d a b \<le> 0 \<or> compare_patients lc k d b a \<le> 0"
  by (auto simp: compare_patients_le)

lemma compare_patients_trans:
  "compare_patients lc k d a b \<le> 0 \<Longrightarrow> compare_patients lc k d b c \<le> 0 \<Longrightarrow> compare_patients lc k d a c \<le> 0"
  by (auto simp: compare_patients_le split: if_splits)

lemma filter_sorted_patients:
  "filter P (sorted_patients lc rows k d) = sorted_patients lc (filter P rows) k d"
  unfolding sorted_patients_def
  by (rule filter_js_sort [OF compare_patients_total compare_patients_trans])

text \<open>The order on strings is the lexicographic order of the code units.\<close>

lemma string_order_lexicographic:
  "([] :: jsstring) < b # t"
  "\<not> s < ([] :: jsstring)"
  "((a :: code_unit) # s < b # t) = (a < b \<or> a = b \<and> s < t)"
  "((a :: code_unit) < b) = (unat a < unat b)"
  by (simp_all add: word_less_nat_alt)

lemma length_list_rows: "length (list_rows lc ps st) = length (filtered lc ps (search st))"
  by (simp add: list_rows_def sorted_patients_def length_js_sort)


lemma sorted_patients_sorted:
  "sorted_wrt (\<lambda>a b. compare_patients lc k d a b \<le> 0) (sorted_patients lc rows k d)"
  unfolding sorted_patients_def
  by (rule sorted_js_sort [OF compare_patients_total compare_patients_trans])


lemma sorted_patients_age:
  "sorted_wrt (\<lambda>a b. if d = Asc then age_key a \<le> age_key b else age_key b \<le> age_key a)
     (sorted_patients lc rows K_age d)"
  using sorted_patients_sorted [where lc = lc and k = K_age and d = d and rows = rows] by (simp add: compare_patients_le)


lemma stable_age:
  "filter (\<lambda>p. age_key p = v) (sorted_patients lc rows K_age d) = filter (\<lambda>p. age_key p = v) rows"
  unfolding sorted_patients_def
  by (rule stable_js_sort) (simp add: compare_patients_le)

subsection \<open>Filtering and sorting\<close>

text \<open>Accented names: the query of a small e with acute and an m finds the first name that
  begins with the capital letter, and the last name that lower-cases to e-acute a sorts
  before the one that lower-cases to e-acute b.\<close>

lemma example_accented:
  "filtered latin1_lc (Some [emile_eb, eric_ea]) [0xE9, 0x6D] = [emile_eb]
   \<and> sorted_patients latin1_lc [emile_eb, eric_ea] K_last_name Asc = [eric_ea, emile_eb]"
  by code_simp

text \<open>
  C5. Applying the patient-list filter to its own result changes nothing, and for every
  list, query, sort key and direction, filtering then sorting shows the same set of patients
  as sorting then filtering; the two lists are even equal, so the order differs nowhere,
  tied keys included. This holds for every lower-casing function \<open>lc\<close>, so for the host's
  \<open>toLowerCase\<close> on names and queries of any script.
\<close>

theorem filter_idempotent_commutes:
  "filtered lc (Some (filtered lc patients q)) q = filtered lc patients q
   \<and> set (sorted_patients lc (filtered lc (Some rows) q) k d)
       = set (filtered lc (Some (sorted_patients lc rows k d)) q)
   \<and> sorted_patients lc (filtered lc (Some rows) q) k d
       = filtered lc (Some (sorted_patients lc rows k d)) q"
  by (cases patients) (simp_all add: filtered_def filter_sorted_patients)




text \<open>
  C10. Under the sort key \<open>age\<close> a patient without an age compares exactly as the same
  patient with age 0 (whatever the lower-casing function \<open>lc\<close>, which the age key never
  calls). In ascending age order no patient with a positive age stands before a
  patient without an age, and the patients without an age keep their pre-sort order.
\<close>

theorem ageless_sorted_first:
  "(age p = None \<longrightarrow>
      compare_patients lc K_age d p b = compare_patients lc K_age d (p\<lparr> age := Some 0 \<rparr>) b
      \<and> compare_patients lc K_age d b p = compare_patients lc K_age d b (p\<lparr> age := Some 0 \<rparr>))
   \<and> (\<forall>i j v. i < j \<and> j < length rows
          \<and> age (sorted_patients lc rows K_age Asc ! j) = None
          \<and> age (sorted_patients lc rows K_age Asc ! i) = Some v
        \<longrightarrow> v \<le> 0)
   \<and> filter (\<lambda>p. age p = None) (sorted_patients lc rows K_age Asc)
       = filter (\<lambda>p. age p = None) rows"
proof -
  let ?r = "sorted_patients lc rows K_age Asc"
  have a: "compare_patients lc K_age d p b = compare_patients lc K_age d (p\<lparr> age := Some 0 \<rparr>) b
      \<and> compare_patients lc K_age d b p = compare_patients lc K_age d b (p\<lparr> age := Some 0 \<rparr>)"
    if "age p = None"
    using that by (simp add: compare_patients_def age_key_def)
  have len: "length ?r = length rows"
    by (simp add: sorted_patients_def length_js_sort)
  have b: "v \<le> 0"
    if "i < j" "j < length rows" "age (?r ! j) = None" "age (?r ! i) = Some v" for i j v
  proof -
    from sorted_patients_age [where lc = lc and d = Asc and rows = rows] that(1,2) len
    have "age_key (?r ! i) \<le> age_key (?r ! j)"
      by (simp add: sorted_wrt_iff_nth_less)
    with that(3,4) show ?thesis by (simp add: age_key_def)
  qed
  have "filter (\<lambda>p. age p = None) (filter (\<lambda>p. age_key p = 0) ?r)
      = filter (\<lambda>p. age p = None) (filter (\<lambda>p. age_key p = 0) rows)"
    by (simp only: stable_age)
  moreover have "(age q = None \<and> age_key q = 0) = (age q = None)" for q
    by (auto simp: age_key_def)
  ultimately have c: "filter (\<lambda>p. age p = None) ?r = filter (\<lambda>p. age p = None) rows"
    by (simp add: conj_commute)
  from a b c show ?thesis by blast
qed

lemma example_sorted_ages:
  "sorted_patients latin1_lc [baby_roe, jane_doe, sam_adams] K_age Asc = [baby_roe, sam_adams, jane_doe]"
  by code_simp

lemma example_compare_same:
  "compare_patients latin1_lc K_age Asc sam_adams al_brown
     = compare_patients latin1_lc K_age Asc (sam_adams\<lparr> age := Some 0 \<rparr>) al_brown"
  by code_simp

lemma example_ageless_kept:
  "filter (\<lambda>p. age p = None) [baby_roe, jane_doe, sam_adams] = [sam_adams]"
  by code_simp

theorem ageless_sorted_first_witness:
  "age sam_adams = None
   \<and> compare_patients latin1_lc K_age Asc sam_adams al_brown
       = compare_patients latin1_lc K_age Asc (sam_adams\<lparr> age := Some 0 \<rparr>) al_brown
   \<and> sorted_patients latin1_lc [baby_roe, jane_doe, sam_adams] K_age Asc = [baby_roe, sam_adams, jane_doe]
   \<and> (0::nat) < 1 \<and> 1 < length [baby_roe, jane_doe, sam_adams]
   \<and> age (sorted_patients latin1_lc [baby_roe, jane_doe, sam_adams] K_age Asc ! 1) = None
   \<and> age (sorted_patients latin1_lc [baby_roe, jane_doe, sam_adams] K_age Asc ! 0) = Some 0
   \<and> (0::rat) \<le> 0
   \<and> filter (\<lambda>p. age p = None) (sorted_patients latin1_lc [baby_roe, jane_doe, sam_adams] K_age Asc)
       = [sam_adams]"
proof -
  note t = ageless_sorted_first [where lc = latin1_lc and p = sam_adams and d = Asc
      and b = al_brown and rows = "[baby_roe, jane_doe, sam_adams]"]
  have h: "age sam_adams = None" by (simp add: sam_adams_def)
  from t h have c: "compare_patients latin1_lc K_age Asc sam_adams al_brown
      = compare_patients latin1_lc K_age Asc (sam_adams\<lparr> age := Some 0 \<rparr>) al_brown"
    by blast
  have s: "sorted_patients latin1_lc [baby_roe, jane_doe, sam_adams] K_age Asc
      = [baby_roe, sam_adams, jane_doe]"
    by (rule example_sorted_ages)
  have l: "(0::nat) < 1" "1 < length [baby_roe, jane_doe, sam_adams]" by simp_all
  have e1: "age (sorted_patients latin1_lc [baby_roe, jane_doe, sam_adams] K_age Asc ! 1) = None"
    unfolding s by (simp add: sam_adams_def)
  have e0: "age (sorted_patients latin1_lc [baby_roe, jane_doe, sam_adams] K_age Asc ! 0) = Some 0"
    unfolding s by (simp add: baby_roe_def)
  from t l e1 e0 have v: "(0::rat) \<le> 0" by blast
  from t have "filter (\<lambda>p. age p = None) (sorted_patients latin1_lc [baby_roe, jane_doe, sam_adams] K_age Asc)
      = filter (\<lambda>p. age p = None) [baby_roe, jane_doe, sam_adams]"
    by blast
  then have f: "filter (\<lambda>p. age p = None)
      (sorted_patients latin1_lc [baby_roe, jane_doe, sam_adams] K_age Asc) = [sam_adams]"
    by (simp only: example_ageless_kept)
  from h c s l e1 e0 v f show ?thesis by (intro conjI)
qed

section \<open>Verification: the dental chart\<close>

lemma lower_char_idem: "lower_char (lower_char c) = lower_char c"
  by (auto simp: lower_char_def less_eq_char_def)

lemma toLowerCase_idem: "toLowerCase (toLowerCase s) = toLowerCase s"
  by (simp add: toLowerCase_def lower_char_idem)

lemma toothMap_snoc: "toothMap (teeth @ [t]) = (toothMap teeth)(tooth_number t \<mapsto> t)"
  by (simp add: toothMap_def)

lemma toothMap_last:
  "toothMap teeth n =
     (case filter (\<lambda>t. tooth_number t = n) teeth of [] \<Rightarrow> None | u # us \<Rightarrow> Some (last (u # us)))"
proof (induction teeth rule: rev_induct)
  case Nil
  show ?case by (simp add: toothMap_def)
next
  case (snoc t teeth)
  then show ?case
    by (auto simp: toothMap_snoc split: list.splits)
qed

lemma toothMap_absent: "(\<forall>t \<in> set teeth. tooth_number t \<noteq> n) \<Longrightarrow> toothMap teeth n = None"
  by (simp add: toothMap_last filter_empty_conv[THEN iffD2] split: list.splits)

lemma color_of_label:
  "getConditionColor l (useColors dark) =
     (if toLowerCase l = ''healthy'' then Some (if dark then ''#2d6a4f'' else ''#28a745'')
      else if toLowerCase l = ''missing'' then Some (if dark then ''#6c757d'' else ''#adb5bd'')
      else if toLowerCase l = ''crown'' then Some (if dark then ''#2563eb'' else ''#007bff'')
      else if toLowerCase l = ''filling'' then Some (if dark then ''#ca8a04'' else ''#ffc107'')
      else if toLowerCase l = ''decay'' then Some (if dark then ''#dc2626'' else ''#dc3545'')
      else if toLowerCase l = ''root canal'' then Some (if dark then ''#7c3aed'' else ''#6f42c1'')
      else if toLowerCase l = ''rootcanal'' then Some (if dark then ''#7c3aed'' else ''#6f42c1'')
      else if toLowerCase l = ''implant'' then Some (if dark then ''#0d9488'' else ''#20c997'')
      else Some (if dark then ''#a0a0a0'' else ''#6c757d''))"
  by (simp add: getConditionColor_def CONDITION_MAP_def useColors_def)

lemma renderTooth_color:
  assumes "tmap num = Some t" and "condition t = Some s"
  shows "cell_color (renderTooth dark tmap sel num) = getConditionColor s (useColors dark)"
    and "cell_condition (renderTooth dark tmap sel num) = toLowerCase s"
  using assms by (simp_all add: renderTooth_def Let_def getConditionColor_def toLowerCase_idem)

lemma toothMap_single: "toothMap [t] (tooth_number t) = Some t"
  by (simp add: toothMap_def)

lemma foldl_store_other:
  "(\<forall>u \<in> set later. tooth_number u \<noteq> n) \<Longrightarrow>
   foldl (\<lambda>m t. m(tooth_number t \<mapsto> t)) m later n = m n"
  by (induction later arbitrary: m) simp_all

lemma toothMap_last_wins:
  assumes "\<forall>u \<in> set later. tooth_number u \<noteq> tooth_number t"
  shows "toothMap (earlier @ t # later) (tooth_number t) = Some t"
  using foldl_store_other [OF assms] by (simp add: toothMap_def)

lemma renderTooth_cong:
  "tmap num = tmap' num \<Longrightarrow> renderTooth dark tmap sel num = renderTooth dark tmap' sel num"
  by (simp add: renderTooth_def)

lemma grid_teeth: "set (upper @ lower) = {1..32}"
proof -
  have "upper @ lower =
      [1, 2, 3, 4, 5, 6, 7, 8, 9, 10, 11, 12, 13, 14, 15, 16,
       32, 31, 30, 29, 28, 27, 26, 25, 24, 23, 22, 21, 20, 19, 18, 17]"
    by (simp add: upper_def lower_def upt_rec)
  moreover have "{1..32::int} = set [1..32]" by simp
  ultimately show ?thesis by (simp add: upto_rec1 insert_commute del: set_upto)
qed

text \<open>
  C4. A tooth whose entry in the chart payload carries a condition string is drawn in the
  colour the fixed table gives for the lower-cased string: healthy, missing, crown, filling,
  decay, root canal or rootcanal, implant each have their colour of the active theme, and
  every other string gets the colour \<open>other\<close>.
\<close>

theorem tooth_color_table:
  assumes "toothMap teeth num = Some t" and "condition t = Some s"
  shows "(toLowerCase s = ''healthy'' \<longrightarrow>
            cell_color (renderTooth dark (toothMap teeth) sel num)
              = Some (if dark then ''#2d6a4f'' else ''#28a745''))
       \<and> (toLowerCase s = ''missing'' \<longrightarrow>
            cell_color (renderTooth dark (toothMap teeth) sel num)
              = Some (if dark then ''#6c757d'' else ''#adb5bd''))
       \<and> (toLowerCase s = ''crown'' \<longrightarrow>
            cell_color (renderTooth dark (toothMap teeth) sel num)
              = Some (if dark then ''#2563eb'' else ''#007bff''))
       \<and> (toLowerCase s = ''filling'' \<longrightarrow>
            cell_color (renderTooth dark (toothMap teeth) sel num)
              = Some (if dark then ''#ca8a04'' else ''#ffc107''))
       \<and> (toLowerCase s = ''decay'' \<longrightarrow>
            cell_color (renderTooth dark (toothMap teeth) sel num)
              = Some (if dark then ''#dc2626'' else ''#dc3545''))
       \<and> (toLowerCase s = ''root canal'' \<or> toLowerCase s = ''rootcanal'' \<longrightarrow>
            cell_color (renderTooth dark (toothMap teeth) sel num)
              = Some (if dark then ''#7c3aed'' else ''#6f42c1''))
       \<and> (toLowerCase s = ''implant'' \<longrightarrow>
            cell_color (renderTooth dark (toothMap teeth) sel num)
              = Some (if dark then ''#0d9488'' else ''#20c997''))
       \<and> (toLowerCase s \<notin> {''healthy'', ''missing'', ''crown'', ''filling'', ''decay'',
                               ''root canal'', ''rootcanal'', ''implant''} \<longrightarrow>
            cell_color (renderTooth dark (toothMap teeth) sel num)
              = Some (if dark then ''#a0a0a0'' else ''#6c757d''))"
proof -
  have "cell_color (renderTooth dark (toothMap teeth) sel num)
      = getConditionColor s (useColors dark)"
    using assms by (rule renderTooth_color(1))
  then show ?thesis
    by (simp add: color_of_label)
qed

lemma example_tooth3: "toothMap [tooth3, tooth14] 3 = Some tooth3"
  by (simp add: toothMap_def tooth3_def tooth14_def)

lemma example_tooth14: "toothMap [tooth3, tooth14] 14 = Some tooth14"
  by (simp add: toothMap_def tooth3_def tooth14_def)

lemma example_lower: "toLowerCase ''Root Canal'' = ''root canal''"
  by code_simp

theorem tooth_color_table_witness:
  "toothMap [tooth3, tooth14] 3 = Some tooth3 \<and> condition tooth3 = Some ''Root Canal''
   \<and> toLowerCase ''Root Canal'' = ''root canal''
   \<and> cell_color (renderTooth False (toothMap [tooth3, tooth14]) None 3) = Some ''#6f42c1''"
  using tooth_color_table [of "[tooth3, tooth14]" 3 tooth3 "''Root Canal''" False None]
    example_tooth3 example_lower
  by (simp add: tooth3_def)

text \<open>
  C8. A tooth number with no entry in \<open>teeth_with_conditions\<close> is drawn with the condition
  \<open>healthy\<close> and the healthy colour, which is neither the \<open>other\<close> nor the \<open>missing\<close>
  colour, and without the dashed look of a missing tooth. Where several entries carry the
  same tooth number, the tooth is drawn from the last of them alone.
\<close>

theorem tooth_default_and_last_entry:
  "((\<forall>u \<in> set teeth. tooth_number u \<noteq> num) \<longrightarrow>
      cell_condition (renderTooth dark (toothMap teeth) sel num) = ''healthy''
      \<and> cell_color (renderTooth dark (toothMap teeth) sel num)
          = Some (if dark then ''#2d6a4f'' else ''#28a745'')
      \<and> cell_color (renderTooth dark (toothMap teeth) sel num) \<noteq> map_of (useColors dark) ''other''
      \<and> cell_color (renderTooth dark (toothMap teeth) sel num) \<noteq> map_of (useColors dark) ''missing''
      \<and> \<not> cell_dashed (renderTooth dark (toothMap teeth) sel num))
   \<and> ((\<forall>u \<in> set later. tooth_number u \<noteq> tooth_number t) \<longrightarrow>
      toothMap (earlier @ t # later) (tooth_number t) = Some t
      \<and> renderTooth dark (toothMap (earlier @ t # later)) sel (tooth_number t)
          = renderTooth dark (toothMap [t]) sel (tooth_number t))"
proof -
  have a: "cell_condition (renderTooth dark (toothMap teeth) sel num) = ''healthy''
      \<and> cell_color (renderTooth dark (toothMap teeth) sel num)
          = Some (if dark then ''#2d6a4f'' else ''#28a745'')
      \<and> cell_color (renderTooth dark (toothMap teeth) sel num) \<noteq> map_of (useColors dark) ''other''
      \<and> cell_color (renderTooth dark (toothMap teeth) sel num) \<noteq> map_of (useColors dark) ''missing''
      \<and> \<not> cell_dashed (renderTooth dark (toothMap teeth) sel num)"
    if "\<forall>u \<in> set teeth. tooth_number u \<noteq> num"
  proof -
    from that have "toothMap teeth num = None" by (rule toothMap_absent)
    then have "renderTooth dark (toothMap teeth) sel num =
        \<lparr> cell_number = num, cell_condition = ''healthy'',
          cell_color = getConditionColor ''healthy'' (useColors dark),
          cell_dashed = False, cell_selected = (sel = Some num) \<rparr>"
      by (simp add: renderTooth_def Let_def)
    moreover have "toLowerCase ''healthy'' = ''healthy''" by code_simp
    ultimately show ?thesis
      by (simp add: color_of_label) (simp add: useColors_def)
  qed
  have b: "toothMap (earlier @ t # later) (tooth_number t) = Some t
      \<and> renderTooth dark (toothMap (earlier @ t # later)) sel (tooth_number t)
          = renderTooth dark (toothMap [t]) sel (tooth_number t)"
    if "\<forall>u \<in> set later. tooth_number u \<noteq> tooth_number t"
  proof -
    from that have "toothMap (earlier @ t # later) (tooth_number t) = Some t"
      by (rule toothMap_last_wins)
    then show ?thesis
      by (simp add: toothMap_single renderTooth_cong [of "toothMap (earlier @ t # later)" _ "toothMap [t]"])
  qed
  from a b show ?thesis by blast
qed

lemma example_crown: "renderTooth False (toothMap [tooth3_crown]) None 3 =
    \<lparr> cell_number = 3, cell_condition = ''crown'', cell_color = Some ''#007bff'',
      cell_dashed = False, cell_selected = False \<rparr>"
  by code_simp

lemma example_tooth_numbers:
  "tooth_number tooth3 = 3" "tooth_number tooth3_crown = 3" "tooth_number tooth14 = 14"
  by (simp_all add: tooth3_def tooth3_crown_def tooth14_def)

theorem tooth_default_and_last_entry_witness:
  "tooth_number tooth3 \<noteq> 5 \<and> tooth_number tooth3_crown \<noteq> 5 \<and> tooth_number tooth14 \<noteq> 5
   \<and> cell_condition (renderTooth False (toothMap [tooth3, tooth3_crown, tooth14]) None 5)
       = ''healthy''
   \<and> cell_color (renderTooth False (toothMap [tooth3, tooth3_crown, tooth14]) None 5)
       = Some ''#28a745''
   \<and> tooth_number tooth14 \<noteq> tooth_number tooth3_crown
   \<and> toothMap [tooth3, tooth3_crown, tooth14] 3 = Some tooth3_crown
   \<and> renderTooth False (toothMap [tooth3, tooth3_crown, tooth14]) None 3 =
        \<lparr> cell_number = 3, cell_condition = ''crown'', cell_color = Some ''#007bff'',
          cell_dashed = False, cell_selected = False \<rparr>"
  using tooth_default_and_last_entry
      [of "[tooth3, tooth3_crown, tooth14]" 5 False None "[tooth14]" tooth3_crown "[tooth3]"]
    example_crown
  by (simp add: example_tooth_numbers)

end
